theory Spec2Isabelle
  imports Main "HOL-Library.Word"
begin

section \<open>AV1Decoder.cpp of pdn-avif: data model\<close>

text \<open>
  Modelled from the spec: the enumeration \<open>DecoderStatus\<close> is declared in
  \<^verbatim>\<open>AvifNative.h\<close>, which is not among the sources; the specification gives it
  as the closed set below.
\<close>

datatype DecoderStatus =
    Ok
  | NullParameter
  | OutOfMemory
  | DecodeFailed
  | ColorSizeMismatch
  | AlphaSizeMismatch

text \<open>
  Modelled from the spec: \<open>aom_codec_err_t\<close> belongs to the external AV1 decoder
  library. The source only tells \<open>AOM_CODEC_OK\<close> and \<open>AOM_CODEC_MEM_ERROR\<close> apart
  from the rest of the library's error space ("every other non-success code").
\<close>

datatype aom_codec_err_t =
    AOM_CODEC_OK
  | AOM_CODEC_ERROR
  | AOM_CODEC_MEM_ERROR
  | AOM_CODEC_ABI_MISMATCH
  | AOM_CODEC_INCAPABLE
  | AOM_CODEC_UNSUP_BITSTREAM
  | AOM_CODEC_UNSUP_FEATURE
  | AOM_CODEC_CORRUPT_FRAME
  | AOM_CODEC_INVALID_PARAM

text \<open>
  The decoded frame, \<open>aom_image_t\<close>: of its fields the source reads the displayed
  width \<open>d_w\<close> and height \<open>d_h\<close>, both \<^verbatim>\<open>unsigned int\<close>.
\<close>

record aom_image_t =
  d_w :: "32 word"
  d_h :: "32 word"

text \<open>
  Modelled from the spec: \<open>DecodeInfo\<close> is declared in \<^verbatim>\<open>AvifNative.h\<close>, which is
  not among the sources; the specification gives the two unsigned fields the source reads.
\<close>

record DecodeInfo =
  expectedWidth :: "32 word"
  expectedHeight :: "32 word"

text \<open>
  The calls the source makes to its collaborators, in the order they happen. An entry
  point returns the list of the calls it made.
\<close>

datatype codec_call =
    Call_aom_codec_av1_dx
  | Call_aom_codec_dec_init
  | Call_aom_codec_decode
  | Call_aom_codec_get_frame
  | Call_aom_codec_destroy
  | Call_ConvertColorImage
  | Call_ConvertAlphaImage

text \<open>
  Modelled from the spec: the collaborators are not among the sources. The decoder
  library works on a context of type \<open>'c\<close> (\<open>aom_codec_ctx_t\<close>);
  \<open>aom_codec_dec_init\<close> is called with the AV1 interface, no configuration and no
  flags, so its outcome is one error code and one context; \<open>aom_codec_get_frame\<close> is
  called once with a fresh iterator and gives the first frame or the null pointer. The
  conversion routines take the frame, the colour metadata (colour routine only), the
  expectation and the output bitmap, and give a status and the bitmap as they left it.
  \<open>'ci\<close> is \<open>ColorConversionInfo\<close> and \<open>'bm\<close> is \<open>BitmapData\<close>, both opaque to
  this file.
\<close>

record ('c, 'ci, 'bm) collaborators =
  aom_codec_dec_init :: "aom_codec_err_t \<times> 'c"
  aom_codec_decode :: "'c \<Rightarrow> 8 word list \<Rightarrow> nat \<Rightarrow> aom_codec_err_t \<times> 'c"
  aom_codec_get_frame :: "'c \<Rightarrow> aom_image_t option"
  ConvertColorImage :: "aom_image_t \<Rightarrow> 'ci option \<Rightarrow> DecodeInfo \<Rightarrow> 'bm \<Rightarrow> DecoderStatus \<times> 'bm"
  ConvertAlphaImage :: "aom_image_t \<Rightarrow> DecodeInfo \<Rightarrow> 'bm \<Rightarrow> DecoderStatus \<times> 'bm"

text \<open>
  A pointer argument is an \<open>option\<close>: \<open>None\<close> is the null pointer, \<open>Some v\<close> a
  pointer to \<open>v\<close>. Reading a field through a null pointer is not a return of the
  function: it is the fault below.
\<close>

datatype fault = NullPointerDereference

text \<open>
  What one call of an entry point leaves behind: the status it returned (or the fault
  that stopped it), the collaborator calls it made, and the caller's bitmap.
\<close>

record 'bm run =
  status :: "fault + DecoderStatus"
  calls :: "codec_call list"
  bitmap :: "'bm option"

section \<open>The functions of AV1Decoder.cpp\<close>

text \<open>
  \<open>DecodeAV1Image\<close> (lines 24-56). The out-parameter \<open>*decodedImage\<close> is the second
  component of the result; \<open>tr\<close> is the list of calls made so far.
\<close>

definition DecodeAV1Image ::
  "('c, 'ci, 'bm) collaborators \<Rightarrow> 'c \<Rightarrow> 8 word list \<Rightarrow> nat \<Rightarrow> codec_call list
    \<Rightarrow> DecoderStatus \<times> aom_image_t option \<times> codec_call list"
where
  "DecodeAV1Image L codec compressedImage compressedImageSize tr =
    (case aom_codec_decode L codec compressedImage compressedImageSize of
      (error, codec1) \<Rightarrow>
        if error \<noteq> AOM_CODEC_OK then
          (if error = AOM_CODEC_MEM_ERROR
           then (OutOfMemory, None, tr @ [Call_aom_codec_decode])
           else (DecodeFailed, None, tr @ [Call_aom_codec_decode]))
        else
          (case aom_codec_get_frame L codec1 of
            None \<Rightarrow>
              (DecodeFailed, None, tr @ [Call_aom_codec_decode, Call_aom_codec_get_frame])
          | Some img \<Rightarrow>
              (Ok, Some img, tr @ [Call_aom_codec_decode, Call_aom_codec_get_frame])))"

text \<open>
  \<open>DecodeColorImage\<close> (lines 59-113). In C++ \<open>&&\<close> binds tighter than \<open>||\<close>, so
  the size condition of lines 99-100 is the disjunction of two conjunctions. Its first
  operand reads \<open>decodeInfo->expectedWidth\<close>, so a null \<open>decodeInfo\<close> faults there.
  The frame is read through \<open>aomImage\<close>, which \<open>DecodeAV1Image\<close> leaves non-null
  whenever it answers \<open>Ok\<close> (lemma \<open>DecodeAV1Image_Ok_frame\<close> below), so the
  branch for a null frame under \<open>Ok\<close> is never taken. \<open>aom_codec_destroy\<close> (line
  110) is the last call on every path that reaches it.
\<close>

definition DecodeColorImage ::
  "('c, 'ci, 'bm) collaborators \<Rightarrow> 8 word list option \<Rightarrow> nat \<Rightarrow> 'ci option
    \<Rightarrow> DecodeInfo option \<Rightarrow> 'bm option \<Rightarrow> 'bm run"
where
  "DecodeColorImage L compressedColorImage compressedColorImageSize colorInfo decodeInfo decodedImage =
    (if compressedColorImage = None \<or> compressedColorImageSize = 0 \<or> decodedImage = None then
       \<lparr>status = Inr NullParameter, calls = [], bitmap = decodedImage\<rparr>
     else
       (case aom_codec_dec_init L of
         (error, codec) \<Rightarrow>
           if error \<noteq> AOM_CODEC_OK then
             (if error = AOM_CODEC_MEM_ERROR
              then \<lparr>status = Inr OutOfMemory,
                    calls = [Call_aom_codec_av1_dx, Call_aom_codec_dec_init],
                    bitmap = decodedImage\<rparr>
              else \<lparr>status = Inr DecodeFailed,
                    calls = [Call_aom_codec_av1_dx, Call_aom_codec_dec_init],
                    bitmap = decodedImage\<rparr>)
           else
             (case DecodeAV1Image L codec (the compressedColorImage) compressedColorImageSize
                     [Call_aom_codec_av1_dx, Call_aom_codec_dec_init] of
               (st, aomImage, tr) \<Rightarrow>
                 if st = Ok then
                   (case decodeInfo of
                     None \<Rightarrow>
                       \<lparr>status = Inl NullPointerDereference, calls = tr, bitmap = decodedImage\<rparr>
                   | Some di \<Rightarrow>
                       (case aomImage of
                         None \<Rightarrow>
                           \<lparr>status = Inl NullPointerDereference, calls = tr,
                            bitmap = decodedImage\<rparr>
                       | Some img \<Rightarrow>
                           if (expectedWidth di \<noteq> 0 \<and> d_w img \<noteq> expectedWidth di) \<or>
                              (expectedHeight di \<noteq> 0 \<and> d_h img \<noteq> expectedHeight di)
                           then
                             \<lparr>status = Inr ColorSizeMismatch,
                              calls = tr @ [Call_aom_codec_destroy],
                              bitmap = decodedImage\<rparr>
                           else
                             (case ConvertColorImage L img colorInfo di (the decodedImage) of
                               (st', bm') \<Rightarrow>
                                 \<lparr>status = Inr st',
                                  calls = tr @ [Call_ConvertColorImage, Call_aom_codec_destroy],
                                  bitmap = Some bm'\<rparr>)))
                 else
                   \<lparr>status = Inr st, calls = tr @ [Call_aom_codec_destroy],
                    bitmap = decodedImage\<rparr>)))"

text \<open>\<open>DecodeAlphaImage\<close> (lines 115-168).\<close>

definition DecodeAlphaImage ::
  "('c, 'ci, 'bm) collaborators \<Rightarrow> 8 word list option \<Rightarrow> nat
    \<Rightarrow> DecodeInfo option \<Rightarrow> 'bm option \<Rightarrow> 'bm run"
where
  "DecodeAlphaImage L compressedAlphaImage compressedAlphaImageSize decodeInfo outputImage =
    (if compressedAlphaImage = None \<or> compressedAlphaImageSize = 0 \<or> outputImage = None then
       \<lparr>status = Inr NullParameter, calls = [], bitmap = outputImage\<rparr>
     else
       (case aom_codec_dec_init L of
         (error, codec) \<Rightarrow>
           if error \<noteq> AOM_CODEC_OK then
             (if error = AOM_CODEC_MEM_ERROR
              then \<lparr>status = Inr OutOfMemory,
                    calls = [Call_aom_codec_av1_dx, Call_aom_codec_dec_init],
                    bitmap = outputImage\<rparr>
              else \<lparr>status = Inr DecodeFailed,
                    calls = [Call_aom_codec_av1_dx, Call_aom_codec_dec_init],
                    bitmap = outputImage\<rparr>)
           else
             (case DecodeAV1Image L codec (the compressedAlphaImage) compressedAlphaImageSize
                     [Call_aom_codec_av1_dx, Call_aom_codec_dec_init] of
               (st, aomImage, tr) \<Rightarrow>
                 if st = Ok then
                   (case decodeInfo of
                     None \<Rightarrow>
                       \<lparr>status = Inl NullPointerDereference, calls = tr, bitmap = outputImage\<rparr>
                   | Some di \<Rightarrow>
                       (case aomImage of
                         None \<Rightarrow>
                           \<lparr>status = Inl NullPointerDereference, calls = tr,
                            bitmap = outputImage\<rparr>
                       | Some img \<Rightarrow>
                           if (expectedWidth di \<noteq> 0 \<and> d_w img \<noteq> expectedWidth di) \<or>
                              (expectedHeight di \<noteq> 0 \<and> d_h img \<noteq> expectedHeight di)
                           then
                             \<lparr>status = Inr AlphaSizeMismatch,
                              calls = tr @ [Call_aom_codec_destroy],
                              bitmap = outputImage\<rparr>
                           else
                             (case ConvertAlphaImage L img di (the outputImage) of
                               (st', bm') \<Rightarrow>
                                 \<lparr>status = Inr st',
                                  calls = tr @ [Call_ConvertAlphaImage, Call_aom_codec_destroy],
                                  bitmap = Some bm'\<rparr>)))
                 else
                   \<lparr>status = Inr st, calls = tr @ [Call_aom_codec_destroy],
                    bitmap = outputImage\<rparr>)))"

section \<open>A concrete collaborator\<close>

text \<open>
  A decoder library and a pair of conversion routines to run the entry points on: the
  initialisation gives \<open>init_err\<close>, the decode call gives \<open>dec_err\<close> and counts the
  call in the context, the frame queue holds \<open>frame\<close>, and the conversion routines
  answer \<open>conv_st\<close> after writing the frame's size into the bitmap.
\<close>

definition sample_lib ::
  "aom_codec_err_t \<Rightarrow> aom_codec_err_t \<Rightarrow> aom_image_t option \<Rightarrow> DecoderStatus
    \<Rightarrow> (nat, unit, nat list) collaborators"
where
  "sample_lib init_err dec_err frame conv_st =
    \<lparr>aom_codec_dec_init = (init_err, 0),
     aom_codec_decode = (\<lambda>c d n. (dec_err, Suc c)),
     aom_codec_get_frame = (\<lambda>c. if c = 0 then None else frame),
     ConvertColorImage = (\<lambda>img ci di bm. (conv_st, [unat (d_w img), unat (d_h img), 3])),
     ConvertAlphaImage = (\<lambda>img di bm. (conv_st, [unat (d_w img), unat (d_h img), 1]))\<rparr>"

section \<open>Auxiliary facts\<close>

lemma DecodeAV1Image_frame:
  assumes "aom_codec_decode L c d n = (AOM_CODEC_OK, c1)"
      and "aom_codec_get_frame L c1 = Some img"
  shows "DecodeAV1Image L c d n tr =
           (Ok, Some img, tr @ [Call_aom_codec_decode, Call_aom_codec_get_frame])"
  using assms by (simp add: DecodeAV1Image_def)

lemma DecodeAV1Image_no_frame:
  assumes "aom_codec_decode L c d n = (AOM_CODEC_OK, c1)"
      and "aom_codec_get_frame L c1 = None"
  shows "DecodeAV1Image L c d n tr =
           (DecodeFailed, None, tr @ [Call_aom_codec_decode, Call_aom_codec_get_frame])"
  using assms by (simp add: DecodeAV1Image_def)

lemma DecodeAV1Image_error:
  assumes "aom_codec_decode L c d n = (e, c1)" and "e \<noteq> AOM_CODEC_OK"
  shows "DecodeAV1Image L c d n tr =
           (if e = AOM_CODEC_MEM_ERROR then OutOfMemory else DecodeFailed, None,
            tr @ [Call_aom_codec_decode])"
  using assms by (simp add: DecodeAV1Image_def)

text \<open>The frame is there exactly when the status is \<open>Ok\<close>.\<close>

lemma DecodeAV1Image_Ok_frame:
  assumes r: "DecodeAV1Image L c d n tr = (st, im, tr')"
  shows "(st = Ok) = (im \<noteq> None)"
proof -
  obtain e c1 where dec: "aom_codec_decode L c d n = (e, c1)"
    by (cases "aom_codec_decode L c d n")
  show ?thesis
  proof (cases "e = AOM_CODEC_OK")
    case False
    from DecodeAV1Image_error [OF dec False, of tr] r show ?thesis
      by (simp split: if_splits)
  next
    case True
    show ?thesis
    proof (cases "aom_codec_get_frame L c1")
      case None
      from DecodeAV1Image_no_frame [OF dec [unfolded True] None, of tr] r show ?thesis
        by simp
    next
      case (Some img)
      from DecodeAV1Image_frame [OF dec [unfolded True] Some, of tr] r show ?thesis
        by simp
    qed
  qed
qed

text \<open>\<open>DecodeAV1Image\<close> only adds calls, and never the release.\<close>

lemma DecodeAV1Image_calls:
  "DecodeAV1Image L c d n tr = (st, im, tr') \<Longrightarrow>
     \<exists>ext. tr' = tr @ ext \<and> ext \<noteq> [] \<and> Call_aom_codec_destroy \<notin> set ext
       \<and> Call_ConvertColorImage \<notin> set ext \<and> Call_ConvertAlphaImage \<notin> set ext"
  by (auto simp: DecodeAV1Image_def split: prod.splits if_splits option.splits)

text \<open>
  Both entry points after a decode that gave the frame \<open>img\<close>, called with non-null
  pointers: what is left is the size condition and its two branches.
\<close>

lemma DecodeColorImage_decoded:
  assumes "aom_codec_dec_init L = (AOM_CODEC_OK, c)"
      and "aom_codec_decode L c d n = (AOM_CODEC_OK, c1)"
      and "aom_codec_get_frame L c1 = Some img"
      and "n \<noteq> 0"
  shows "DecodeColorImage L (Some d) n colorInfo (Some di) (Some bm) =
    (if (expectedWidth di \<noteq> 0 \<and> d_w img \<noteq> expectedWidth di) \<or>
        (expectedHeight di \<noteq> 0 \<and> d_h img \<noteq> expectedHeight di)
     then \<lparr>status = Inr ColorSizeMismatch,
           calls = [Call_aom_codec_av1_dx, Call_aom_codec_dec_init, Call_aom_codec_decode,
                    Call_aom_codec_get_frame, Call_aom_codec_destroy],
           bitmap = Some bm\<rparr>
     else \<lparr>status = Inr (fst (ConvertColorImage L img colorInfo di bm)),
           calls = [Call_aom_codec_av1_dx, Call_aom_codec_dec_init, Call_aom_codec_decode,
                    Call_aom_codec_get_frame, Call_ConvertColorImage, Call_aom_codec_destroy],
           bitmap = Some (snd (ConvertColorImage L img colorInfo di bm))\<rparr>)"
  using assms
  by (simp add: DecodeColorImage_def DecodeAV1Image_frame split: prod.splits)

lemma DecodeAlphaImage_decoded:
  assumes "aom_codec_dec_init L = (AOM_CODEC_OK, c)"
      and "aom_codec_decode L c d n = (AOM_CODEC_OK, c1)"
      and "aom_codec_get_frame L c1 = Some img"
      and "n \<noteq> 0"
  shows "DecodeAlphaImage L (Some d) n (Some di) (Some bm) =
    (if (expectedWidth di \<noteq> 0 \<and> d_w img \<noteq> expectedWidth di) \<or>
        (expectedHeight di \<noteq> 0 \<and> d_h img \<noteq> expectedHeight di)
     then \<lparr>status = Inr AlphaSizeMismatch,
           calls = [Call_aom_codec_av1_dx, Call_aom_codec_dec_init, Call_aom_codec_decode,
                    Call_aom_codec_get_frame, Call_aom_codec_destroy],
           bitmap = Some bm\<rparr>
     else \<lparr>status = Inr (fst (ConvertAlphaImage L img di bm)),
           calls = [Call_aom_codec_av1_dx, Call_aom_codec_dec_init, Call_aom_codec_decode,
                    Call_aom_codec_get_frame, Call_ConvertAlphaImage, Call_aom_codec_destroy],
           bitmap = Some (snd (ConvertAlphaImage L img di bm))\<rparr>)"
  using assms
  by (simp add: DecodeAlphaImage_def DecodeAV1Image_frame split: prod.splits)

text \<open>The concrete collaborator, field by field.\<close>

lemma sample_lib_simps:
  "aom_codec_dec_init (sample_lib ie de fr cs) = (ie, 0)"
  "aom_codec_decode (sample_lib ie de fr cs) c d n = (de, Suc c)"
  "aom_codec_get_frame (sample_lib ie de fr cs) c = (if c = 0 then None else fr)"
  "ConvertColorImage (sample_lib ie de fr cs) img ci di bm =
     (cs, [unat (d_w img), unat (d_h img), 3])"
  "ConvertAlphaImage (sample_lib ie de fr cs) img di bm =
     (cs, [unat (d_w img), unat (d_h img), 1])"
  by (simp_all add: sample_lib_def)

section \<open>Properties\<close>

text \<open>
  C3. A call of \<open>DecodeColorImage\<close> or \<open>DecodeAlphaImage\<close> with a null compressed
  buffer, a zero buffer length or a null output bitmap returns \<open>NullParameter\<close> at
  once: it made no collaborator call, so no decoder was initialised, and the bitmap is
  as it was.
\<close>

theorem null_parameter_rejected:
  assumes "data = None \<or> n = 0 \<or> out = None"
  shows "DecodeColorImage L data n colorInfo decodeInfo out =
           \<lparr>status = Inr NullParameter, calls = [], bitmap = out\<rparr>
       \<and> DecodeAlphaImage L data n decodeInfo out =
           \<lparr>status = Inr NullParameter, calls = [], bitmap = out\<rparr>"
  using assms by (simp add: DecodeColorImage_def DecodeAlphaImage_def)

theorem null_parameter_rejected_witness:
  "(Some [1, 2, 3] = (None :: 8 word list option) \<or> (0::nat) = 0 \<or> Some [0::nat] = None)
   \<and> DecodeColorImage (sample_lib AOM_CODEC_OK AOM_CODEC_OK (Some \<lparr>d_w = 4, d_h = 3\<rparr>) Ok)
        (Some [1, 2, 3]) 0 (Some ()) (Some \<lparr>expectedWidth = 0, expectedHeight = 0\<rparr>) (Some [0])
      = \<lparr>status = Inr NullParameter, calls = [], bitmap = Some [0]\<rparr>
   \<and> DecodeAlphaImage (sample_lib AOM_CODEC_OK AOM_CODEC_OK (Some \<lparr>d_w = 4, d_h = 3\<rparr>) Ok)
        (Some [1, 2, 3]) 0 (Some \<lparr>expectedWidth = 0, expectedHeight = 0\<rparr>) (Some [0])
      = \<lparr>status = Inr NullParameter, calls = [], bitmap = Some [0]\<rparr>"
  using null_parameter_rejected
    [of "Some [1, 2, 3]" 0 "Some [0::nat]"
        "sample_lib AOM_CODEC_OK AOM_CODEC_OK (Some \<lparr>d_w = 4, d_h = 3\<rparr>) Ok"
        "Some ()" "Some \<lparr>expectedWidth = 0, expectedHeight = 0\<rparr>"]
  by simp

text \<open>
  C5. When \<open>aom_codec_dec_init\<close> fails, both entry points return \<open>OutOfMemory\<close>
  for \<open>AOM_CODEC_MEM_ERROR\<close> and \<open>DecodeFailed\<close> for any other error; the only
  calls made are the interface lookup and the initialisation, so nothing is released.
\<close>

theorem init_failure_mapping:
  assumes "fst (aom_codec_dec_init L) \<noteq> AOM_CODEC_OK" and "n \<noteq> 0"
  shows "DecodeColorImage L (Some d) n colorInfo decodeInfo (Some bm) =
           \<lparr>status = Inr (if fst (aom_codec_dec_init L) = AOM_CODEC_MEM_ERROR
                          then OutOfMemory else DecodeFailed),
            calls = [Call_aom_codec_av1_dx, Call_aom_codec_dec_init],
            bitmap = Some bm\<rparr>
       \<and> DecodeAlphaImage L (Some d) n decodeInfo (Some bm) =
           \<lparr>status = Inr (if fst (aom_codec_dec_init L) = AOM_CODEC_MEM_ERROR
                          then OutOfMemory else DecodeFailed),
            calls = [Call_aom_codec_av1_dx, Call_aom_codec_dec_init],
            bitmap = Some bm\<rparr>
       \<and> Call_aom_codec_destroy \<notin> set (calls (DecodeColorImage L (Some d) n colorInfo decodeInfo (Some bm)))
       \<and> Call_aom_codec_destroy \<notin> set (calls (DecodeAlphaImage L (Some d) n decodeInfo (Some bm)))"
proof -
  obtain e c where i: "aom_codec_dec_init L = (e, c)"
    by (cases "aom_codec_dec_init L")
  with assms have e: "e \<noteq> AOM_CODEC_OK"
    by simp
  show ?thesis
    using i e \<open>n \<noteq> 0\<close> by (simp add: DecodeColorImage_def DecodeAlphaImage_def)
qed

theorem init_failure_mapping_witness:
  "fst (aom_codec_dec_init (sample_lib AOM_CODEC_MEM_ERROR AOM_CODEC_OK None Ok)) \<noteq> AOM_CODEC_OK
   \<and> (1::nat) \<noteq> 0
   \<and> status (DecodeColorImage (sample_lib AOM_CODEC_MEM_ERROR AOM_CODEC_OK None Ok)
        (Some [7]) 1 (Some ()) None (Some [0])) = Inr OutOfMemory
   \<and> status (DecodeAlphaImage (sample_lib AOM_CODEC_MEM_ERROR AOM_CODEC_OK None Ok)
        (Some [7]) 1 None (Some [0])) = Inr OutOfMemory
   \<and> fst (aom_codec_dec_init (sample_lib AOM_CODEC_INCAPABLE AOM_CODEC_OK None Ok)) \<noteq> AOM_CODEC_OK
   \<and> status (DecodeColorImage (sample_lib AOM_CODEC_INCAPABLE AOM_CODEC_OK None Ok)
        (Some [7]) 1 (Some ()) None (Some [0])) = Inr DecodeFailed
   \<and> calls (DecodeAlphaImage (sample_lib AOM_CODEC_INCAPABLE AOM_CODEC_OK None Ok)
        (Some [7]) 1 None (Some [0])) = [Call_aom_codec_av1_dx, Call_aom_codec_dec_init]"
  using init_failure_mapping
          [of "sample_lib AOM_CODEC_MEM_ERROR AOM_CODEC_OK None Ok" 1 "[7]" "Some ()" None "[0]"]
        init_failure_mapping
          [of "sample_lib AOM_CODEC_INCAPABLE AOM_CODEC_OK None Ok" 1 "[7]" "Some ()" None "[0]"]
  by (simp add: sample_lib_simps)

text \<open>
  C4. \<open>DecodeAV1Image\<close>: a decode call that fails with \<open>AOM_CODEC_MEM_ERROR\<close>
  gives \<open>OutOfMemory\<close>, one that fails with any other error gives \<open>DecodeFailed\<close>,
  and in both cases the frame pointer is null and the frame queue is not read. A decode
  call that succeeds and leaves no frame in the queue gives \<open>DecodeFailed\<close> with a
  null frame pointer; the entry points then return \<open>DecodeFailed\<close> without reading
  the frame or the expectation (whatever \<open>decodeInfo\<close> is) and release the decoder.
\<close>

theorem decode_step_error_mapping:
  "(fst (aom_codec_decode L c d n) = AOM_CODEC_MEM_ERROR \<longrightarrow>
      DecodeAV1Image L c d n tr = (OutOfMemory, None, tr @ [Call_aom_codec_decode]))
 \<and> (fst (aom_codec_decode L c d n) \<noteq> AOM_CODEC_OK \<and>
    fst (aom_codec_decode L c d n) \<noteq> AOM_CODEC_MEM_ERROR \<longrightarrow>
      DecodeAV1Image L c d n tr = (DecodeFailed, None, tr @ [Call_aom_codec_decode]))
 \<and> (fst (aom_codec_decode L c d n) = AOM_CODEC_OK \<and>
    aom_codec_get_frame L (snd (aom_codec_decode L c d n)) = None \<longrightarrow>
      DecodeAV1Image L c d n tr =
        (DecodeFailed, None, tr @ [Call_aom_codec_decode, Call_aom_codec_get_frame])
      \<and> (aom_codec_dec_init L = (AOM_CODEC_OK, c) \<and> n \<noteq> 0 \<longrightarrow>
           DecodeColorImage L (Some d) n colorInfo decodeInfo (Some bm) =
             \<lparr>status = Inr DecodeFailed,
              calls = [Call_aom_codec_av1_dx, Call_aom_codec_dec_init, Call_aom_codec_decode,
                       Call_aom_codec_get_frame, Call_aom_codec_destroy],
              bitmap = Some bm\<rparr>
         \<and> DecodeAlphaImage L (Some d) n decodeInfo (Some bm) =
             \<lparr>status = Inr DecodeFailed,
              calls = [Call_aom_codec_av1_dx, Call_aom_codec_dec_init, Call_aom_codec_decode,
                       Call_aom_codec_get_frame, Call_aom_codec_destroy],
              bitmap = Some bm\<rparr>))"
proof -
  obtain e c1 where dec: "aom_codec_decode L c d n = (e, c1)"
    by (cases "aom_codec_decode L c d n")
  have mem: "e = AOM_CODEC_MEM_ERROR \<Longrightarrow>
      DecodeAV1Image L c d n tr = (OutOfMemory, None, tr @ [Call_aom_codec_decode])"
    using DecodeAV1Image_error [OF dec, of tr] by simp
  have other: "e \<noteq> AOM_CODEC_OK \<Longrightarrow> e \<noteq> AOM_CODEC_MEM_ERROR \<Longrightarrow>
      DecodeAV1Image L c d n tr = (DecodeFailed, None, tr @ [Call_aom_codec_decode])"
    using DecodeAV1Image_error [OF dec, of tr] by simp
  have empty: "e = AOM_CODEC_OK \<Longrightarrow> aom_codec_get_frame L c1 = None \<Longrightarrow>
      DecodeAV1Image L c d n tr' =
        (DecodeFailed, None, tr' @ [Call_aom_codec_decode, Call_aom_codec_get_frame])" for tr'
    using DecodeAV1Image_no_frame [of L c d n c1 tr'] dec by simp
  have entry: "e = AOM_CODEC_OK \<Longrightarrow> aom_codec_get_frame L c1 = None \<Longrightarrow>
      aom_codec_dec_init L = (AOM_CODEC_OK, c) \<Longrightarrow> n \<noteq> 0 \<Longrightarrow>
      DecodeColorImage L (Some d) n colorInfo decodeInfo (Some bm) =
             \<lparr>status = Inr DecodeFailed,
              calls = [Call_aom_codec_av1_dx, Call_aom_codec_dec_init, Call_aom_codec_decode,
                       Call_aom_codec_get_frame, Call_aom_codec_destroy],
              bitmap = Some bm\<rparr>
       \<and> DecodeAlphaImage L (Some d) n decodeInfo (Some bm) =
             \<lparr>status = Inr DecodeFailed,
              calls = [Call_aom_codec_av1_dx, Call_aom_codec_dec_init, Call_aom_codec_decode,
                       Call_aom_codec_get_frame, Call_aom_codec_destroy],
              bitmap = Some bm\<rparr>"
    by (simp add: DecodeColorImage_def DecodeAlphaImage_def empty)
  show ?thesis
    using mem other empty [of tr] entry by (simp add: dec)
qed

theorem decode_step_error_mapping_witness:
  "fst (aom_codec_decode (sample_lib AOM_CODEC_OK AOM_CODEC_MEM_ERROR None Ok) 0 [7] 1)
     = AOM_CODEC_MEM_ERROR
   \<and> DecodeAV1Image (sample_lib AOM_CODEC_OK AOM_CODEC_MEM_ERROR None Ok) 0 [7] 1 []
     = (OutOfMemory, None, [Call_aom_codec_decode])
   \<and> fst (aom_codec_decode (sample_lib AOM_CODEC_OK AOM_CODEC_CORRUPT_FRAME None Ok) 0 [7] 1)
     \<noteq> AOM_CODEC_OK
   \<and> fst (aom_codec_decode (sample_lib AOM_CODEC_OK AOM_CODEC_CORRUPT_FRAME None Ok) 0 [7] 1)
     \<noteq> AOM_CODEC_MEM_ERROR
   \<and> DecodeAV1Image (sample_lib AOM_CODEC_OK AOM_CODEC_CORRUPT_FRAME None Ok) 0 [7] 1 []
     = (DecodeFailed, None, [Call_aom_codec_decode])
   \<and> fst (aom_codec_decode (sample_lib AOM_CODEC_OK AOM_CODEC_OK None Ok) 0 [7] 1)
     = AOM_CODEC_OK
   \<and> aom_codec_get_frame (sample_lib AOM_CODEC_OK AOM_CODEC_OK None Ok)
       (snd (aom_codec_decode (sample_lib AOM_CODEC_OK AOM_CODEC_OK None Ok) 0 [7] 1)) = None
   \<and> aom_codec_dec_init (sample_lib AOM_CODEC_OK AOM_CODEC_OK None Ok) = (AOM_CODEC_OK, 0)
   \<and> (1::nat) \<noteq> 0
   \<and> DecodeAV1Image (sample_lib AOM_CODEC_OK AOM_CODEC_OK None Ok) 0 [7] 1 []
     = (DecodeFailed, None, [Call_aom_codec_decode, Call_aom_codec_get_frame])
   \<and> status (DecodeColorImage (sample_lib AOM_CODEC_OK AOM_CODEC_OK None Ok)
        (Some [7]) 1 None None (Some [0])) = Inr DecodeFailed
   \<and> status (DecodeAlphaImage (sample_lib AOM_CODEC_OK AOM_CODEC_OK None Ok)
        (Some [7]) 1 None (Some [0])) = Inr DecodeFailed"
  using decode_step_error_mapping
          [of "sample_lib AOM_CODEC_OK AOM_CODEC_MEM_ERROR None Ok" 0 "[7]" 1 "[]"]
        decode_step_error_mapping
          [of "sample_lib AOM_CODEC_OK AOM_CODEC_CORRUPT_FRAME None Ok" 0 "[7]" 1 "[]"]
        decode_step_error_mapping
          [of "sample_lib AOM_CODEC_OK AOM_CODEC_OK None Ok" 0 "[7]" 1 "[]" None None "[0]"]
  by (simp add: sample_lib_simps)

text \<open>
  C2. After a decode that gave a frame, the size check of either entry point fails (the
  conversion routine is not called and the entry point's own mismatch status is
  returned) if and only if the expected width is non-zero and differs from the frame's
  width, or the expected height is non-zero and differs from the frame's height. With
  both expectations zero the check passes whatever the frame's size is.
\<close>

theorem dimension_validation_rule:
  assumes "aom_codec_dec_init L = (AOM_CODEC_OK, c)"
      and "aom_codec_decode L c d n = (AOM_CODEC_OK, c1)"
      and "aom_codec_get_frame L c1 = Some img"
      and "n \<noteq> 0"
  shows "((Call_ConvertColorImage \<notin> set (calls (DecodeColorImage L (Some d) n colorInfo (Some di) (Some bm)))
           \<and> status (DecodeColorImage L (Some d) n colorInfo (Some di) (Some bm)) = Inr ColorSizeMismatch)
          = ((expectedWidth di \<noteq> 0 \<and> d_w img \<noteq> expectedWidth di) \<or>
             (expectedHeight di \<noteq> 0 \<and> d_h img \<noteq> expectedHeight di)))
       \<and> ((Call_ConvertAlphaImage \<notin> set (calls (DecodeAlphaImage L (Some d) n (Some di) (Some bm)))
           \<and> status (DecodeAlphaImage L (Some d) n (Some di) (Some bm)) = Inr AlphaSizeMismatch)
          = ((expectedWidth di \<noteq> 0 \<and> d_w img \<noteq> expectedWidth di) \<or>
             (expectedHeight di \<noteq> 0 \<and> d_h img \<noteq> expectedHeight di)))
       \<and> (expectedWidth di = 0 \<and> expectedHeight di = 0 \<longrightarrow>
            Call_ConvertColorImage \<in> set (calls (DecodeColorImage L (Some d) n colorInfo (Some di) (Some bm)))
          \<and> Call_ConvertAlphaImage \<in> set (calls (DecodeAlphaImage L (Some d) n (Some di) (Some bm))))"
  by (simp add: DecodeColorImage_decoded [OF assms] DecodeAlphaImage_decoded [OF assms])

text \<open>
  The first instance has a zero expected width and a wrong height: the check fails, as
  the grouping \<open>(a && b) || (c && d)\<close> says. The second has both expectations zero.
\<close>

theorem dimension_validation_rule_witness:
  "aom_codec_dec_init (sample_lib AOM_CODEC_OK AOM_CODEC_OK (Some \<lparr>d_w = 4, d_h = 3\<rparr>) Ok)
     = (AOM_CODEC_OK, 0)
   \<and> aom_codec_decode (sample_lib AOM_CODEC_OK AOM_CODEC_OK (Some \<lparr>d_w = 4, d_h = 3\<rparr>) Ok) 0 [7] 1
     = (AOM_CODEC_OK, 1)
   \<and> aom_codec_get_frame (sample_lib AOM_CODEC_OK AOM_CODEC_OK (Some \<lparr>d_w = 4, d_h = 3\<rparr>) Ok) 1
     = Some \<lparr>d_w = 4, d_h = 3\<rparr>
   \<and> (1::nat) \<noteq> 0
   \<and> status (DecodeColorImage (sample_lib AOM_CODEC_OK AOM_CODEC_OK (Some \<lparr>d_w = 4, d_h = 3\<rparr>) Ok)
        (Some [7]) 1 None (Some \<lparr>expectedWidth = 0, expectedHeight = 5\<rparr>) (Some [0]))
     = Inr ColorSizeMismatch
   \<and> status (DecodeAlphaImage (sample_lib AOM_CODEC_OK AOM_CODEC_OK (Some \<lparr>d_w = 4, d_h = 3\<rparr>) Ok)
        (Some [7]) 1 (Some \<lparr>expectedWidth = 0, expectedHeight = 5\<rparr>) (Some [0]))
     = Inr AlphaSizeMismatch
   \<and> expectedWidth \<lparr>expectedWidth = 0, expectedHeight = 0\<rparr> = 0
   \<and> expectedHeight \<lparr>expectedWidth = 0, expectedHeight = 0\<rparr> = 0
   \<and> Call_ConvertColorImage \<in> set (calls
        (DecodeColorImage (sample_lib AOM_CODEC_OK AOM_CODEC_OK (Some \<lparr>d_w = 4, d_h = 3\<rparr>) Ok)
          (Some [7]) 1 None (Some \<lparr>expectedWidth = 0, expectedHeight = 0\<rparr>) (Some [0])))
   \<and> Call_ConvertAlphaImage \<in> set (calls
        (DecodeAlphaImage (sample_lib AOM_CODEC_OK AOM_CODEC_OK (Some \<lparr>d_w = 4, d_h = 3\<rparr>) Ok)
          (Some [7]) 1 (Some \<lparr>expectedWidth = 0, expectedHeight = 0\<rparr>) (Some [0])))"
proof -
  let ?L = "sample_lib AOM_CODEC_OK AOM_CODEC_OK (Some \<lparr>d_w = 4, d_h = 3\<rparr>) Ok"
  have i: "aom_codec_dec_init ?L = (AOM_CODEC_OK, 0)"
    and dc: "aom_codec_decode ?L 0 [7] 1 = (AOM_CODEC_OK, 1)"
    and fr: "aom_codec_get_frame ?L 1 = Some \<lparr>d_w = 4, d_h = 3\<rparr>"
    and n: "(1::nat) \<noteq> 0"
    by (simp_all add: sample_lib_simps)
  show ?thesis
    using dimension_validation_rule [OF i dc fr n, of None
            "\<lparr>expectedWidth = 0, expectedHeight = 5\<rparr>" "[0]"]
          dimension_validation_rule [OF i dc fr n, of None
            "\<lparr>expectedWidth = 0, expectedHeight = 0\<rparr>" "[0]"]
          i dc fr
    by simp
qed

text \<open>
  C6. After a decode that gave a frame, a non-zero expected width that differs from the
  frame's width makes \<open>DecodeColorImage\<close> return \<open>ColorSizeMismatch\<close> and
  \<open>DecodeAlphaImage\<close> return \<open>AlphaSizeMismatch\<close>, whatever the heights are.
\<close>

theorem width_mismatch_status:
  assumes "aom_codec_dec_init L = (AOM_CODEC_OK, c)"
      and "aom_codec_decode L c d n = (AOM_CODEC_OK, c1)"
      and "aom_codec_get_frame L c1 = Some img"
      and "n \<noteq> 0"
      and "expectedWidth di \<noteq> 0"
      and "d_w img \<noteq> expectedWidth di"
  shows "status (DecodeColorImage L (Some d) n colorInfo (Some di) (Some bm)) = Inr ColorSizeMismatch
       \<and> status (DecodeAlphaImage L (Some d) n (Some di) (Some bm)) = Inr AlphaSizeMismatch"
  using assms(5,6)
  by (simp add: DecodeColorImage_decoded [OF assms(1-4)] DecodeAlphaImage_decoded [OF assms(1-4)])

text \<open>The instance has the expected height equal to the frame's height.\<close>

theorem width_mismatch_status_witness:
  "aom_codec_dec_init (sample_lib AOM_CODEC_OK AOM_CODEC_OK (Some \<lparr>d_w = 4, d_h = 3\<rparr>) Ok)
     = (AOM_CODEC_OK, 0)
   \<and> aom_codec_decode (sample_lib AOM_CODEC_OK AOM_CODEC_OK (Some \<lparr>d_w = 4, d_h = 3\<rparr>) Ok) 0 [7] 1
     = (AOM_CODEC_OK, 1)
   \<and> aom_codec_get_frame (sample_lib AOM_CODEC_OK AOM_CODEC_OK (Some \<lparr>d_w = 4, d_h = 3\<rparr>) Ok) 1
     = Some \<lparr>d_w = 4, d_h = 3\<rparr>
   \<and> (1::nat) \<noteq> 0
   \<and> expectedWidth \<lparr>expectedWidth = 5, expectedHeight = 3\<rparr> \<noteq> 0
   \<and> d_w \<lparr>d_w = 4, d_h = 3\<rparr> \<noteq> expectedWidth \<lparr>expectedWidth = 5, expectedHeight = 3\<rparr>
   \<and> d_h \<lparr>d_w = 4, d_h = 3\<rparr> = expectedHeight \<lparr>expectedWidth = 5, expectedHeight = 3\<rparr>
   \<and> status (DecodeColorImage (sample_lib AOM_CODEC_OK AOM_CODEC_OK (Some \<lparr>d_w = 4, d_h = 3\<rparr>) Ok)
        (Some [7]) 1 None (Some \<lparr>expectedWidth = 5, expectedHeight = 3\<rparr>) (Some [0]))
     = Inr ColorSizeMismatch
   \<and> status (DecodeAlphaImage (sample_lib AOM_CODEC_OK AOM_CODEC_OK (Some \<lparr>d_w = 4, d_h = 3\<rparr>) Ok)
        (Some [7]) 1 (Some \<lparr>expectedWidth = 5, expectedHeight = 3\<rparr>) (Some [0]))
     = Inr AlphaSizeMismatch"
proof -
  let ?L = "sample_lib AOM_CODEC_OK AOM_CODEC_OK (Some \<lparr>d_w = 4, d_h = 3\<rparr>) Ok"
  let ?di = "\<lparr>expectedWidth = 5, expectedHeight = 3\<rparr>"
  have i: "aom_codec_dec_init ?L = (AOM_CODEC_OK, 0)"
    and dc: "aom_codec_decode ?L 0 [7] 1 = (AOM_CODEC_OK, 1)"
    and fr: "aom_codec_get_frame ?L 1 = Some \<lparr>d_w = 4, d_h = 3\<rparr>"
    and n: "(1::nat) \<noteq> 0"
    and w0: "expectedWidth ?di \<noteq> 0"
    and w: "d_w \<lparr>d_w = 4, d_h = 3\<rparr> \<noteq> expectedWidth ?di"
    by (simp_all add: sample_lib_simps)
  show ?thesis
    using width_mismatch_status [OF i dc fr n w0 w, of None "[0]"] i dc fr
    by simp
qed

text \<open>
  C7. When the size check fails, the conversion routine is not called, the caller's
  bitmap is as it was, and the mismatch status is returned with the release of the
  decoder as the last call made.
\<close>

theorem mismatch_skips_conversion:
  assumes "aom_codec_dec_init L = (AOM_CODEC_OK, c)"
      and "aom_codec_decode L c d n = (AOM_CODEC_OK, c1)"
      and "aom_codec_get_frame L c1 = Some img"
      and "n \<noteq> 0"
      and "(expectedWidth di \<noteq> 0 \<and> d_w img \<noteq> expectedWidth di) \<or>
           (expectedHeight di \<noteq> 0 \<and> d_h img \<noteq> expectedHeight di)"
  shows "DecodeColorImage L (Some d) n colorInfo (Some di) (Some bm) =
           \<lparr>status = Inr ColorSizeMismatch,
            calls = [Call_aom_codec_av1_dx, Call_aom_codec_dec_init, Call_aom_codec_decode,
                     Call_aom_codec_get_frame, Call_aom_codec_destroy],
            bitmap = Some bm\<rparr>
       \<and> DecodeAlphaImage L (Some d) n (Some di) (Some bm) =
           \<lparr>status = Inr AlphaSizeMismatch,
            calls = [Call_aom_codec_av1_dx, Call_aom_codec_dec_init, Call_aom_codec_decode,
                     Call_aom_codec_get_frame, Call_aom_codec_destroy],
            bitmap = Some bm\<rparr>
       \<and> Call_ConvertColorImage \<notin> set (calls (DecodeColorImage L (Some d) n colorInfo (Some di) (Some bm)))
       \<and> Call_ConvertAlphaImage \<notin> set (calls (DecodeAlphaImage L (Some d) n (Some di) (Some bm)))
       \<and> last (calls (DecodeColorImage L (Some d) n colorInfo (Some di) (Some bm))) = Call_aom_codec_destroy
       \<and> last (calls (DecodeAlphaImage L (Some d) n (Some di) (Some bm))) = Call_aom_codec_destroy"
  using assms(5)
  by (simp add: DecodeColorImage_decoded [OF assms(1-4)] DecodeAlphaImage_decoded [OF assms(1-4)])

text \<open>The instance is a tile one pixel narrower than the frame, of the same height.\<close>

theorem mismatch_skips_conversion_witness:
  "aom_codec_dec_init (sample_lib AOM_CODEC_OK AOM_CODEC_OK (Some \<lparr>d_w = 4, d_h = 3\<rparr>) Ok)
     = (AOM_CODEC_OK, 0)
   \<and> aom_codec_decode (sample_lib AOM_CODEC_OK AOM_CODEC_OK (Some \<lparr>d_w = 4, d_h = 3\<rparr>) Ok) 0 [7] 1
     = (AOM_CODEC_OK, 1)
   \<and> aom_codec_get_frame (sample_lib AOM_CODEC_OK AOM_CODEC_OK (Some \<lparr>d_w = 4, d_h = 3\<rparr>) Ok) 1
     = Some \<lparr>d_w = 4, d_h = 3\<rparr>
   \<and> (1::nat) \<noteq> 0
   \<and> ((expectedWidth \<lparr>expectedWidth = 3, expectedHeight = 3\<rparr> \<noteq> 0
        \<and> d_w \<lparr>d_w = 4, d_h = 3\<rparr> \<noteq> expectedWidth \<lparr>expectedWidth = 3, expectedHeight = 3\<rparr>)
      \<or> (expectedHeight \<lparr>expectedWidth = 3, expectedHeight = 3\<rparr> \<noteq> 0
        \<and> d_h \<lparr>d_w = 4, d_h = 3\<rparr> \<noteq> expectedHeight \<lparr>expectedWidth = 3, expectedHeight = 3\<rparr>))
   \<and> DecodeColorImage (sample_lib AOM_CODEC_OK AOM_CODEC_OK (Some \<lparr>d_w = 4, d_h = 3\<rparr>) Ok)
        (Some [7]) 1 None (Some \<lparr>expectedWidth = 3, expectedHeight = 3\<rparr>) (Some [0])
     = \<lparr>status = Inr ColorSizeMismatch,
        calls = [Call_aom_codec_av1_dx, Call_aom_codec_dec_init, Call_aom_codec_decode,
                 Call_aom_codec_get_frame, Call_aom_codec_destroy],
        bitmap = Some [0]\<rparr>
   \<and> DecodeAlphaImage (sample_lib AOM_CODEC_OK AOM_CODEC_OK (Some \<lparr>d_w = 4, d_h = 3\<rparr>) Ok)
        (Some [7]) 1 (Some \<lparr>expectedWidth = 3, expectedHeight = 3\<rparr>) (Some [0])
     = \<lparr>status = Inr AlphaSizeMismatch,
        calls = [Call_aom_codec_av1_dx, Call_aom_codec_dec_init, Call_aom_codec_decode,
                 Call_aom_codec_get_frame, Call_aom_codec_destroy],
        bitmap = Some [0]\<rparr>"
proof -
  let ?L = "sample_lib AOM_CODEC_OK AOM_CODEC_OK (Some \<lparr>d_w = 4, d_h = 3\<rparr>) Ok"
  let ?di = "\<lparr>expectedWidth = 3, expectedHeight = 3\<rparr>"
  let ?img = "\<lparr>d_w = 4, d_h = 3\<rparr>"
  have i: "aom_codec_dec_init ?L = (AOM_CODEC_OK, 0)"
    and dc: "aom_codec_decode ?L 0 [7] 1 = (AOM_CODEC_OK, 1)"
    and fr: "aom_codec_get_frame ?L 1 = Some ?img"
    and n: "(1::nat) \<noteq> 0"
    and mm: "(expectedWidth ?di \<noteq> 0 \<and> d_w ?img \<noteq> expectedWidth ?di) \<or>
             (expectedHeight ?di \<noteq> 0 \<and> d_h ?img \<noteq> expectedHeight ?di)"
    by (simp_all add: sample_lib_simps)
  show ?thesis
    using mismatch_skips_conversion [OF i dc fr n mm, of None "[0]"] i dc fr
    by simp
qed

text \<open>
  C8. When the decode gave a frame and the size check passed, the status the conversion
  routine returned is the status the entry point returns, and the bitmap is the one the
  conversion routine left.
\<close>

theorem conversion_status_verbatim:
  assumes "aom_codec_dec_init L = (AOM_CODEC_OK, c)"
      and "aom_codec_decode L c d n = (AOM_CODEC_OK, c1)"
      and "aom_codec_get_frame L c1 = Some img"
      and "n \<noteq> 0"
      and "\<not> ((expectedWidth di \<noteq> 0 \<and> d_w img \<noteq> expectedWidth di) \<or>
              (expectedHeight di \<noteq> 0 \<and> d_h img \<noteq> expectedHeight di))"
  shows "status (DecodeColorImage L (Some d) n colorInfo (Some di) (Some bm))
           = Inr (fst (ConvertColorImage L img colorInfo di bm))
       \<and> bitmap (DecodeColorImage L (Some d) n colorInfo (Some di) (Some bm))
           = Some (snd (ConvertColorImage L img colorInfo di bm))
       \<and> status (DecodeAlphaImage L (Some d) n (Some di) (Some bm))
           = Inr (fst (ConvertAlphaImage L img di bm))
       \<and> bitmap (DecodeAlphaImage L (Some d) n (Some di) (Some bm))
           = Some (snd (ConvertAlphaImage L img di bm))"
proof -
  have "DecodeColorImage L (Some d) n colorInfo (Some di) (Some bm) =
          \<lparr>status = Inr (fst (ConvertColorImage L img colorInfo di bm)),
           calls = [Call_aom_codec_av1_dx, Call_aom_codec_dec_init, Call_aom_codec_decode,
                    Call_aom_codec_get_frame, Call_ConvertColorImage, Call_aom_codec_destroy],
           bitmap = Some (snd (ConvertColorImage L img colorInfo di bm))\<rparr>"
    unfolding DecodeColorImage_decoded [OF assms(1-4)] if_not_P [OF assms(5)] ..
  moreover
  have "DecodeAlphaImage L (Some d) n (Some di) (Some bm) =
          \<lparr>status = Inr (fst (ConvertAlphaImage L img di bm)),
           calls = [Call_aom_codec_av1_dx, Call_aom_codec_dec_init, Call_aom_codec_decode,
                    Call_aom_codec_get_frame, Call_ConvertAlphaImage, Call_aom_codec_destroy],
           bitmap = Some (snd (ConvertAlphaImage L img di bm))\<rparr>"
    unfolding DecodeAlphaImage_decoded [OF assms(1-4)] if_not_P [OF assms(5)] ..
  ultimately show ?thesis
    by simp
qed

text \<open>The instance has a conversion routine that answers \<open>OutOfMemory\<close>.\<close>

theorem conversion_status_verbatim_witness:
  "aom_codec_dec_init (sample_lib AOM_CODEC_OK AOM_CODEC_OK (Some \<lparr>d_w = 4, d_h = 3\<rparr>) OutOfMemory)
     = (AOM_CODEC_OK, 0)
   \<and> aom_codec_decode (sample_lib AOM_CODEC_OK AOM_CODEC_OK (Some \<lparr>d_w = 4, d_h = 3\<rparr>) OutOfMemory) 0 [7] 1
     = (AOM_CODEC_OK, 1)
   \<and> aom_codec_get_frame (sample_lib AOM_CODEC_OK AOM_CODEC_OK (Some \<lparr>d_w = 4, d_h = 3\<rparr>) OutOfMemory) 1
     = Some \<lparr>d_w = 4, d_h = 3\<rparr>
   \<and> (1::nat) \<noteq> 0
   \<and> \<not> ((expectedWidth \<lparr>expectedWidth = 4, expectedHeight = 0\<rparr> \<noteq> 0
        \<and> d_w \<lparr>d_w = 4, d_h = 3\<rparr> \<noteq> expectedWidth \<lparr>expectedWidth = 4, expectedHeight = 0\<rparr>)
      \<or> (expectedHeight \<lparr>expectedWidth = 4, expectedHeight = 0\<rparr> \<noteq> 0
        \<and> d_h \<lparr>d_w = 4, d_h = 3\<rparr> \<noteq> expectedHeight \<lparr>expectedWidth = 4, expectedHeight = 0\<rparr>))
   \<and> status (DecodeColorImage (sample_lib AOM_CODEC_OK AOM_CODEC_OK (Some \<lparr>d_w = 4, d_h = 3\<rparr>) OutOfMemory)
        (Some [7]) 1 None (Some \<lparr>expectedWidth = 4, expectedHeight = 0\<rparr>) (Some [0]))
     = Inr OutOfMemory
   \<and> bitmap (DecodeColorImage (sample_lib AOM_CODEC_OK AOM_CODEC_OK (Some \<lparr>d_w = 4, d_h = 3\<rparr>) OutOfMemory)
        (Some [7]) 1 None (Some \<lparr>expectedWidth = 4, expectedHeight = 0\<rparr>) (Some [0]))
     = Some [4, 3, 3]
   \<and> status (DecodeAlphaImage (sample_lib AOM_CODEC_OK AOM_CODEC_OK (Some \<lparr>d_w = 4, d_h = 3\<rparr>) OutOfMemory)
        (Some [7]) 1 (Some \<lparr>expectedWidth = 4, expectedHeight = 0\<rparr>) (Some [0]))
     = Inr OutOfMemory
   \<and> bitmap (DecodeAlphaImage (sample_lib AOM_CODEC_OK AOM_CODEC_OK (Some \<lparr>d_w = 4, d_h = 3\<rparr>) OutOfMemory)
        (Some [7]) 1 (Some \<lparr>expectedWidth = 4, expectedHeight = 0\<rparr>) (Some [0]))
     = Some [4, 3, 1]"
proof -
  let ?L = "sample_lib AOM_CODEC_OK AOM_CODEC_OK (Some \<lparr>d_w = 4, d_h = 3\<rparr>) OutOfMemory"
  let ?di = "\<lparr>expectedWidth = 4, expectedHeight = 0\<rparr>"
  let ?img = "\<lparr>d_w = 4, d_h = 3\<rparr>"
  have i: "aom_codec_dec_init ?L = (AOM_CODEC_OK, 0)"
    and dc: "aom_codec_decode ?L 0 [7] 1 = (AOM_CODEC_OK, 1)"
    and fr: "aom_codec_get_frame ?L 1 = Some ?img"
    and n: "(1::nat) \<noteq> 0"
    and ok: "\<not> ((expectedWidth ?di \<noteq> 0 \<and> d_w ?img \<noteq> expectedWidth ?di) \<or>
                (expectedHeight ?di \<noteq> 0 \<and> d_h ?img \<noteq> expectedHeight ?di))"
    by (simp_all add: sample_lib_simps)
  show ?thesis
    using conversion_status_verbatim [OF i dc fr n ok, of None "[0]"] i dc fr
    by (simp add: sample_lib_simps)
qed

text \<open>
  C1. In a call of \<open>DecodeColorImage\<close> or \<open>DecodeAlphaImage\<close> that got past the
  parameter check and whose decoder initialisation succeeded, whenever the function
  returns a status, \<open>aom_codec_destroy\<close> was called exactly once and it was the last
  call made: after a decode failure, a size mismatch, a failed conversion and a success
  alike. With a non-null \<open>decodeInfo\<close> the function does return a status.
\<close>

theorem decoder_released_once:
  assumes "fst (aom_codec_dec_init L) = AOM_CODEC_OK"
      and "data \<noteq> None" and "n \<noteq> 0" and "out \<noteq> None"
  shows "(\<forall>s. status (DecodeColorImage L data n colorInfo decodeInfo out) = Inr s \<longrightarrow>
            count_list (calls (DecodeColorImage L data n colorInfo decodeInfo out))
              Call_aom_codec_destroy = 1
          \<and> last (calls (DecodeColorImage L data n colorInfo decodeInfo out))
              = Call_aom_codec_destroy)
       \<and> (\<forall>s. status (DecodeAlphaImage L data n decodeInfo out) = Inr s \<longrightarrow>
            count_list (calls (DecodeAlphaImage L data n decodeInfo out))
              Call_aom_codec_destroy = 1
          \<and> last (calls (DecodeAlphaImage L data n decodeInfo out))
              = Call_aom_codec_destroy)
       \<and> (decodeInfo \<noteq> None \<longrightarrow>
            (\<exists>s. status (DecodeColorImage L data n colorInfo decodeInfo out) = Inr s)
          \<and> (\<exists>s. status (DecodeAlphaImage L data n decodeInfo out) = Inr s))"
proof -
  obtain e c where i: "aom_codec_dec_init L = (e, c)"
    by (cases "aom_codec_dec_init L")
  with assms(1) have e: "e = AOM_CODEC_OK"
    by simp
  have color: "(\<forall>s. status (DecodeColorImage L data n colorInfo decodeInfo out) = Inr s \<longrightarrow>
            count_list (calls (DecodeColorImage L data n colorInfo decodeInfo out))
              Call_aom_codec_destroy = 1
          \<and> last (calls (DecodeColorImage L data n colorInfo decodeInfo out))
              = Call_aom_codec_destroy)
       \<and> (decodeInfo \<noteq> None \<longrightarrow>
            (\<exists>s. status (DecodeColorImage L data n colorInfo decodeInfo out) = Inr s))"
    using i e assms(2-4)
    by (auto simp: DecodeColorImage_def DecodeAV1Image_def split: prod.splits option.splits)
  have alpha: "(\<forall>s. status (DecodeAlphaImage L data n decodeInfo out) = Inr s \<longrightarrow>
            count_list (calls (DecodeAlphaImage L data n decodeInfo out))
              Call_aom_codec_destroy = 1
          \<and> last (calls (DecodeAlphaImage L data n decodeInfo out))
              = Call_aom_codec_destroy)
       \<and> (decodeInfo \<noteq> None \<longrightarrow>
            (\<exists>s. status (DecodeAlphaImage L data n decodeInfo out) = Inr s))"
    using i e assms(2-4)
    by (auto simp: DecodeAlphaImage_def DecodeAV1Image_def split: prod.splits option.splits)
  from color alpha show ?thesis
    by blast
qed

text \<open>
  Four instances: a corrupt bitstream, a tile of the wrong width, a conversion that
  fails, and a success.
\<close>

theorem decoder_released_once_witness:
  "fst (aom_codec_dec_init (sample_lib AOM_CODEC_OK AOM_CODEC_CORRUPT_FRAME None Ok)) = AOM_CODEC_OK
   \<and> Some [7 :: 8 word] \<noteq> None \<and> (1::nat) \<noteq> 0 \<and> Some [0::nat] \<noteq> None
   \<and> status (DecodeColorImage (sample_lib AOM_CODEC_OK AOM_CODEC_CORRUPT_FRAME None Ok)
        (Some [7]) 1 None (Some \<lparr>expectedWidth = 0, expectedHeight = 0\<rparr>) (Some [0]))
      = Inr DecodeFailed
   \<and> count_list (calls (DecodeColorImage (sample_lib AOM_CODEC_OK AOM_CODEC_CORRUPT_FRAME None Ok)
        (Some [7]) 1 None (Some \<lparr>expectedWidth = 0, expectedHeight = 0\<rparr>) (Some [0])))
        Call_aom_codec_destroy = 1
   \<and> fst (aom_codec_dec_init (sample_lib AOM_CODEC_OK AOM_CODEC_OK (Some \<lparr>d_w = 4, d_h = 3\<rparr>) Ok))
      = AOM_CODEC_OK
   \<and> status (DecodeAlphaImage (sample_lib AOM_CODEC_OK AOM_CODEC_OK (Some \<lparr>d_w = 4, d_h = 3\<rparr>) Ok)
        (Some [7]) 1 (Some \<lparr>expectedWidth = 3, expectedHeight = 3\<rparr>) (Some [0]))
      = Inr AlphaSizeMismatch
   \<and> count_list (calls (DecodeAlphaImage (sample_lib AOM_CODEC_OK AOM_CODEC_OK (Some \<lparr>d_w = 4, d_h = 3\<rparr>) Ok)
        (Some [7]) 1 (Some \<lparr>expectedWidth = 3, expectedHeight = 3\<rparr>) (Some [0])))
        Call_aom_codec_destroy = 1
   \<and> fst (aom_codec_dec_init (sample_lib AOM_CODEC_OK AOM_CODEC_OK (Some \<lparr>d_w = 4, d_h = 3\<rparr>) OutOfMemory))
      = AOM_CODEC_OK
   \<and> status (DecodeColorImage (sample_lib AOM_CODEC_OK AOM_CODEC_OK (Some \<lparr>d_w = 4, d_h = 3\<rparr>) OutOfMemory)
        (Some [7]) 1 None (Some \<lparr>expectedWidth = 4, expectedHeight = 3\<rparr>) (Some [0]))
      = Inr OutOfMemory
   \<and> count_list (calls (DecodeColorImage (sample_lib AOM_CODEC_OK AOM_CODEC_OK (Some \<lparr>d_w = 4, d_h = 3\<rparr>) OutOfMemory)
        (Some [7]) 1 None (Some \<lparr>expectedWidth = 4, expectedHeight = 3\<rparr>) (Some [0])))
        Call_aom_codec_destroy = 1
   \<and> status (DecodeColorImage (sample_lib AOM_CODEC_OK AOM_CODEC_OK (Some \<lparr>d_w = 4, d_h = 3\<rparr>) Ok)
        (Some [7]) 1 None (Some \<lparr>expectedWidth = 0, expectedHeight = 0\<rparr>) (Some [0]))
      = Inr Ok
   \<and> count_list (calls (DecodeColorImage (sample_lib AOM_CODEC_OK AOM_CODEC_OK (Some \<lparr>d_w = 4, d_h = 3\<rparr>) Ok)
        (Some [7]) 1 None (Some \<lparr>expectedWidth = 0, expectedHeight = 0\<rparr>) (Some [0])))
        Call_aom_codec_destroy = 1
   \<and> last (calls (DecodeColorImage (sample_lib AOM_CODEC_OK AOM_CODEC_OK (Some \<lparr>d_w = 4, d_h = 3\<rparr>) Ok)
        (Some [7]) 1 None (Some \<lparr>expectedWidth = 0, expectedHeight = 0\<rparr>) (Some [0])))
      = Call_aom_codec_destroy"
proof -
  let ?bad = "sample_lib AOM_CODEC_OK AOM_CODEC_CORRUPT_FRAME None Ok"
  let ?good = "sample_lib AOM_CODEC_OK AOM_CODEC_OK (Some \<lparr>d_w = 4, d_h = 3\<rparr>) Ok"
  let ?oom = "sample_lib AOM_CODEC_OK AOM_CODEC_OK (Some \<lparr>d_w = 4, d_h = 3\<rparr>) OutOfMemory"
  have i: "fst (aom_codec_dec_init ?bad) = AOM_CODEC_OK"
          "fst (aom_codec_dec_init ?good) = AOM_CODEC_OK"
          "fst (aom_codec_dec_init ?oom) = AOM_CODEC_OK"
    by (simp_all add: sample_lib_simps)
  have p: "Some [7 :: 8 word] \<noteq> None" "(1::nat) \<noteq> 0" "Some [0::nat] \<noteq> None"
    by simp_all
  have s: "status (DecodeColorImage ?bad (Some [7]) 1 None
              (Some \<lparr>expectedWidth = 0, expectedHeight = 0\<rparr>) (Some [0])) = Inr DecodeFailed"
          "status (DecodeAlphaImage ?good (Some [7]) 1
              (Some \<lparr>expectedWidth = 3, expectedHeight = 3\<rparr>) (Some [0])) = Inr AlphaSizeMismatch"
          "status (DecodeColorImage ?oom (Some [7]) 1 None
              (Some \<lparr>expectedWidth = 4, expectedHeight = 3\<rparr>) (Some [0])) = Inr OutOfMemory"
          "status (DecodeColorImage ?good (Some [7]) 1 None
              (Some \<lparr>expectedWidth = 0, expectedHeight = 0\<rparr>) (Some [0])) = Inr Ok"
    by (simp_all add: DecodeColorImage_def DecodeAlphaImage_def DecodeAV1Image_def
          sample_lib_simps)
  show ?thesis
    using decoder_released_once [OF i(1) p, of None
            "Some \<lparr>expectedWidth = 0, expectedHeight = 0\<rparr>"]
          decoder_released_once [OF i(2) p, of None
            "Some \<lparr>expectedWidth = 3, expectedHeight = 3\<rparr>"]
          decoder_released_once [OF i(3) p, of None
            "Some \<lparr>expectedWidth = 4, expectedHeight = 3\<rparr>"]
          decoder_released_once [OF i(2) p, of None
            "Some \<lparr>expectedWidth = 0, expectedHeight = 0\<rparr>"]
          i s
    by simp
qed

text \<open>
  C9. The parameter check of the entry points does not look at \<open>decodeInfo\<close> (nor,
  in \<open>DecodeColorImage\<close>, at \<open>colorInfo\<close>): with a non-null buffer, a non-zero
  length and a non-null bitmap a call goes on to initialise the decoder even when both
  are null. When the decode then gives a frame, a null \<open>decodeInfo\<close> is read through:
  the call ends in the null-pointer fault, after the frame was fetched and before any
  release.
\<close>

theorem null_decodeInfo_unchecked:
  assumes "n \<noteq> 0"
  shows "take 2 (calls (DecodeColorImage L (Some d) n None None (Some bm)))
           = [Call_aom_codec_av1_dx, Call_aom_codec_dec_init]
       \<and> take 2 (calls (DecodeAlphaImage L (Some d) n None (Some bm)))
           = [Call_aom_codec_av1_dx, Call_aom_codec_dec_init]
       \<and> (fst (aom_codec_dec_init L) = AOM_CODEC_OK
          \<and> fst (aom_codec_decode L (snd (aom_codec_dec_init L)) d n) = AOM_CODEC_OK
          \<and> aom_codec_get_frame L
               (snd (aom_codec_decode L (snd (aom_codec_dec_init L)) d n)) \<noteq> None
          \<longrightarrow> DecodeColorImage L (Some d) n colorInfo None (Some bm) =
                \<lparr>status = Inl NullPointerDereference,
                 calls = [Call_aom_codec_av1_dx, Call_aom_codec_dec_init,
                          Call_aom_codec_decode, Call_aom_codec_get_frame],
                 bitmap = Some bm\<rparr>
            \<and> DecodeAlphaImage L (Some d) n None (Some bm) =
                \<lparr>status = Inl NullPointerDereference,
                 calls = [Call_aom_codec_av1_dx, Call_aom_codec_dec_init,
                          Call_aom_codec_decode, Call_aom_codec_get_frame],
                 bitmap = Some bm\<rparr>)"
proof -
  obtain e c where i: "aom_codec_dec_init L = (e, c)"
    by (cases "aom_codec_dec_init L")
  obtain de c1 where dc: "aom_codec_decode L c d n = (de, c1)"
    by (cases "aom_codec_decode L c d n")
  show ?thesis
    using assms i dc
    by (cases "aom_codec_get_frame L c1")
       (simp_all add: DecodeColorImage_def DecodeAlphaImage_def DecodeAV1Image_def)
qed

theorem null_decodeInfo_unchecked_witness:
  "(1::nat) \<noteq> 0
   \<and> fst (aom_codec_dec_init (sample_lib AOM_CODEC_OK AOM_CODEC_OK (Some \<lparr>d_w = 4, d_h = 3\<rparr>) Ok))
       = AOM_CODEC_OK
   \<and> fst (aom_codec_decode (sample_lib AOM_CODEC_OK AOM_CODEC_OK (Some \<lparr>d_w = 4, d_h = 3\<rparr>) Ok)
       (snd (aom_codec_dec_init (sample_lib AOM_CODEC_OK AOM_CODEC_OK (Some \<lparr>d_w = 4, d_h = 3\<rparr>) Ok)))
       [7] 1) = AOM_CODEC_OK
   \<and> aom_codec_get_frame (sample_lib AOM_CODEC_OK AOM_CODEC_OK (Some \<lparr>d_w = 4, d_h = 3\<rparr>) Ok)
       (snd (aom_codec_decode (sample_lib AOM_CODEC_OK AOM_CODEC_OK (Some \<lparr>d_w = 4, d_h = 3\<rparr>) Ok)
         (snd (aom_codec_dec_init (sample_lib AOM_CODEC_OK AOM_CODEC_OK (Some \<lparr>d_w = 4, d_h = 3\<rparr>) Ok)))
         [7] 1)) \<noteq> None
   \<and> status (DecodeColorImage (sample_lib AOM_CODEC_OK AOM_CODEC_OK (Some \<lparr>d_w = 4, d_h = 3\<rparr>) Ok)
        (Some [7]) 1 (Some ()) None (Some [0])) = Inl NullPointerDereference
   \<and> status (DecodeAlphaImage (sample_lib AOM_CODEC_OK AOM_CODEC_OK (Some \<lparr>d_w = 4, d_h = 3\<rparr>) Ok)
        (Some [7]) 1 None (Some [0])) = Inl NullPointerDereference
   \<and> calls (DecodeAlphaImage (sample_lib AOM_CODEC_OK AOM_CODEC_OK (Some \<lparr>d_w = 4, d_h = 3\<rparr>) Ok)
        (Some [7]) 1 None (Some [0]))
       = [Call_aom_codec_av1_dx, Call_aom_codec_dec_init, Call_aom_codec_decode,
          Call_aom_codec_get_frame]"
proof -
  have n: "(1::nat) \<noteq> 0"
    by simp
  show ?thesis
    using null_decodeInfo_unchecked [OF n,
            of "sample_lib AOM_CODEC_OK AOM_CODEC_OK (Some \<lparr>d_w = 4, d_h = 3\<rparr>) Ok"
               "[7]" "[0]" "Some ()"]
    by (simp add: sample_lib_simps)
qed

text \<open>
  C10. The two entry points run the same steps. On the same arguments and with the same
  collaborators, the calls of \<open>DecodeAlphaImage\<close> are those of \<open>DecodeColorImage\<close>
  with the conversion routine exchanged. When no conversion is reached, the bitmaps are
  equal and the statuses are equal except that \<open>ColorSizeMismatch\<close> becomes
  \<open>AlphaSizeMismatch\<close>; when the conversion is reached, each entry point returns
  the status of its own conversion routine, called on the same frame, expectation and
  bitmap.
\<close>

theorem color_alpha_same_pipeline:
  "calls (DecodeAlphaImage L data n decodeInfo out) =
     map (\<lambda>x. if x = Call_ConvertColorImage then Call_ConvertAlphaImage else x)
       (calls (DecodeColorImage L data n colorInfo decodeInfo out))
   \<and> (if Call_ConvertColorImage \<in> set (calls (DecodeColorImage L data n colorInfo decodeInfo out))
      then \<exists>img di bm. decodeInfo = Some di \<and> out = Some bm
             \<and> status (DecodeColorImage L data n colorInfo decodeInfo out)
                 = Inr (fst (ConvertColorImage L img colorInfo di bm))
             \<and> status (DecodeAlphaImage L data n decodeInfo out)
                 = Inr (fst (ConvertAlphaImage L img di bm))
      else status (DecodeAlphaImage L data n decodeInfo out)
             = (if status (DecodeColorImage L data n colorInfo decodeInfo out) = Inr ColorSizeMismatch
                then Inr AlphaSizeMismatch
                else status (DecodeColorImage L data n colorInfo decodeInfo out))
         \<and> bitmap (DecodeAlphaImage L data n decodeInfo out)
             = bitmap (DecodeColorImage L data n colorInfo decodeInfo out))"
proof (cases "data = None \<or> n = 0 \<or> out = None")
  case True
  then show ?thesis
    by (simp add: DecodeColorImage_def DecodeAlphaImage_def)
next
  case False
  then obtain d bm where args: "data = Some d" "n \<noteq> 0" "out = Some bm"
    by auto
  obtain e c where i: "aom_codec_dec_init L = (e, c)"
    by (cases "aom_codec_dec_init L")
  obtain de c1 where dc: "aom_codec_decode L c d n = (de, c1)"
    by (cases "aom_codec_decode L c d n")
  show ?thesis
  proof (cases "e = AOM_CODEC_OK \<and> de = AOM_CODEC_OK")
    case False
    with args i dc show ?thesis
      by (auto simp add: DecodeColorImage_def DecodeAlphaImage_def DecodeAV1Image_def)
  next
    case True
    then have i': "aom_codec_dec_init L = (AOM_CODEC_OK, c)"
      and dc': "aom_codec_decode L c d n = (AOM_CODEC_OK, c1)"
      using i dc by simp_all
    show ?thesis
    proof (cases "aom_codec_get_frame L c1")
      case None
      with args i' dc' show ?thesis
        by (simp add: DecodeColorImage_def DecodeAlphaImage_def DecodeAV1Image_def)
    next
      case (Some img)
      show ?thesis
      proof (cases decodeInfo)
        case None
        with args i' dc' Some show ?thesis
          by (simp add: DecodeColorImage_def DecodeAlphaImage_def DecodeAV1Image_def)
      next
        case di: (Some di)
        note rc = DecodeColorImage_decoded [OF i' dc' Some args(2)]
        note ra = DecodeAlphaImage_decoded [OF i' dc' Some args(2)]
        show ?thesis
        proof (cases "(expectedWidth di \<noteq> 0 \<and> d_w img \<noteq> expectedWidth di) \<or>
                      (expectedHeight di \<noteq> 0 \<and> d_h img \<noteq> expectedHeight di)")
          case True
          then show ?thesis
            unfolding args di rc ra by simp
        next
          case False
          have "\<exists>img'. fst (ConvertColorImage L img colorInfo di bm)
                    = fst (ConvertColorImage L img' colorInfo di bm)
                  \<and> fst (ConvertAlphaImage L img di bm) = fst (ConvertAlphaImage L img' di bm)"
            by (rule exI [of _ img]) simp
          then show ?thesis
            unfolding args di rc ra if_not_P [OF False] by simp
        qed
      qed
    qed
  qed
qed

text \<open>
  Two instances: a tile of the wrong width, where only the mismatch status differs, and
  a success, where only the conversion call differs.
\<close>

theorem color_alpha_same_pipeline_witness:
  "status (DecodeColorImage (sample_lib AOM_CODEC_OK AOM_CODEC_OK (Some \<lparr>d_w = 4, d_h = 3\<rparr>) Ok)
      (Some [7, 9]) 2 None (Some \<lparr>expectedWidth = 3, expectedHeight = 3\<rparr>) (Some [0]))
     = Inr ColorSizeMismatch
   \<and> status (DecodeAlphaImage (sample_lib AOM_CODEC_OK AOM_CODEC_OK (Some \<lparr>d_w = 4, d_h = 3\<rparr>) Ok)
      (Some [7, 9]) 2 (Some \<lparr>expectedWidth = 3, expectedHeight = 3\<rparr>) (Some [0]))
     = Inr AlphaSizeMismatch
   \<and> calls (DecodeAlphaImage (sample_lib AOM_CODEC_OK AOM_CODEC_OK (Some \<lparr>d_w = 4, d_h = 3\<rparr>) Ok)
      (Some [7, 9]) 2 (Some \<lparr>expectedWidth = 3, expectedHeight = 3\<rparr>) (Some [0]))
     = calls (DecodeColorImage (sample_lib AOM_CODEC_OK AOM_CODEC_OK (Some \<lparr>d_w = 4, d_h = 3\<rparr>) Ok)
      (Some [7, 9]) 2 None (Some \<lparr>expectedWidth = 3, expectedHeight = 3\<rparr>) (Some [0]))
   \<and> calls (DecodeColorImage (sample_lib AOM_CODEC_OK AOM_CODEC_OK (Some \<lparr>d_w = 4, d_h = 3\<rparr>) Ok)
      (Some [7, 9]) 2 None (Some \<lparr>expectedWidth = 4, expectedHeight = 3\<rparr>) (Some [0]))
     = [Call_aom_codec_av1_dx, Call_aom_codec_dec_init, Call_aom_codec_decode,
        Call_aom_codec_get_frame, Call_ConvertColorImage, Call_aom_codec_destroy]
   \<and> calls (DecodeAlphaImage (sample_lib AOM_CODEC_OK AOM_CODEC_OK (Some \<lparr>d_w = 4, d_h = 3\<rparr>) Ok)
      (Some [7, 9]) 2 (Some \<lparr>expectedWidth = 4, expectedHeight = 3\<rparr>) (Some [0]))
     = [Call_aom_codec_av1_dx, Call_aom_codec_dec_init, Call_aom_codec_decode,
        Call_aom_codec_get_frame, Call_ConvertAlphaImage, Call_aom_codec_destroy]"
proof -
  let ?L = "sample_lib AOM_CODEC_OK AOM_CODEC_OK (Some \<lparr>d_w = 4, d_h = 3\<rparr>) Ok"
  have c: "DecodeColorImage ?L (Some [7, 9]) 2 None
             (Some \<lparr>expectedWidth = 3, expectedHeight = 3\<rparr>) (Some [0]) =
           \<lparr>status = Inr ColorSizeMismatch,
            calls = [Call_aom_codec_av1_dx, Call_aom_codec_dec_init, Call_aom_codec_decode,
                     Call_aom_codec_get_frame, Call_aom_codec_destroy],
            bitmap = Some [0]\<rparr>"
          "DecodeColorImage ?L (Some [7, 9]) 2 None
             (Some \<lparr>expectedWidth = 4, expectedHeight = 3\<rparr>) (Some [0]) =
           \<lparr>status = Inr Ok,
            calls = [Call_aom_codec_av1_dx, Call_aom_codec_dec_init, Call_aom_codec_decode,
                     Call_aom_codec_get_frame, Call_ConvertColorImage, Call_aom_codec_destroy],
            bitmap = Some [4, 3, 3]\<rparr>"
    by (simp_all add: DecodeColorImage_def DecodeAV1Image_def sample_lib_simps)
  show ?thesis
    using color_alpha_same_pipeline [of ?L "Some [7, 9]" 2
            "Some \<lparr>expectedWidth = 3, expectedHeight = 3\<rparr>" "Some [0]" None]
          color_alpha_same_pipeline [of ?L "Some [7, 9]" 2
            "Some \<lparr>expectedWidth = 4, expectedHeight = 3\<rparr>" "Some [0]" None]
    by (simp add: c)
qed

end
